theory Spec2Isabelle
  imports Complex_Main "HOL-Library.Word"
begin

section \<open>Fatal errors\<close>

text \<open>
  Modelled from the spec: the class \<open>Error\<close> of \<open>exceptions.h\<close> is not among the
  sources. The spec classifies every \<open>Error e("...")\<close> of the sources as fatal: the
  run ends where the object is constructed. A function that can construct one returns
  a sum, with \<open>Inl\<close> carrying the message.
\<close>

datatype Error = Error string

section \<open>The MPI controller\<close>

text \<open>
  \<open>MPIcontroller\<close> holds the number of processes \<open>size\<close>, the \<open>rank\<close> of this
  process, the shape of the BLACS process grid and the two vectors filled by
  \<open>divideWork\<close>. The header that declares the element type of \<open>workDivisionHeads\<close>
  and \<open>workDivisionTails\<close> is not among the sources, so the width \<open>'w\<close> of their
  elements is a parameter; the values stored are computed in \<open>size_t\<close> arithmetic
  (64 bit, unsigned) and narrowed to that width.
\<close>

record (overloaded) ('w) MPIcontroller =
  sizeMPI :: int
  rank :: int
  numBlasRows :: int
  numBlasCols :: int
  workDivisionHeads :: "'w word list"
  workDivisionTails :: "'w word list"

text \<open>
  \<open>(int)(sqrt(size))\<close>: the square root of a positive \<open>int\<close>, rounded down. The
  function below computes it on naturals; \<open>sqrt_floor_real\<close> shows that it is the floor
  of the real square root.
\<close>

fun sqrt_floor :: "nat \<Rightarrow> nat" where
  "sqrt_floor 0 = 0"
| "sqrt_floor (Suc n) =
     (let r = sqrt_floor n in if (r + 1) * (r + 1) \<le> Suc n then r + 1 else r)"

text \<open>
  The constructor, in the build with MPI: \<open>worldSize\<close> and \<open>worldRank\<close> are what
  \<open>MPI_Comm_size\<close> and \<open>MPI_Comm_rank\<close> return. The grid is square, with
  \<open>numBlasRows = (int) sqrt(size)\<close>; a process outside the grid is an error.
  \<open>blacs_gridinfo_\<close> hands back the shape that \<open>blacs_gridinit_\<close> was given. The
  build without MPI sets \<open>size = 1\<close> and a grid of one row and one column, which is
  the result here for \<open>worldSize = 1\<close>. The older version of the file has no process
  grid.
\<close>

definition MPIcontroller_init :: "int \<Rightarrow> int \<Rightarrow> Error + 'w::len MPIcontroller" where
  "MPIcontroller_init worldSize worldRank =
     (let numBlasRows' = int (sqrt_floor (nat worldSize));
          numBlasCols' = numBlasRows'
      in if worldSize > numBlasRows' * numBlasCols'
         then Inl (Error ''Phoebe needs a square number of MPI processes'')
         else Inr \<lparr> sizeMPI = worldSize, rank = worldRank,
                    numBlasRows = numBlasRows', numBlasCols = numBlasCols',
                    workDivisionHeads = [], workDivisionTails = [] \<rparr>)"

text \<open>
  \<open>divideWork(size_t numTasks)\<close>: both vectors are cleared and resized to \<open>size\<close>
  entries, then the loop over \<open>r = 0, ..., size - 1\<close> stores
  \<open>(numTasks * r) / size\<close> and \<open>(numTasks * (r + 1)) / size\<close>. The \<open>int\<close> operands
  \<open>r\<close>, \<open>r + 1\<close> and \<open>size\<close> are converted to \<open>size_t\<close>; the product wraps
  modulo \<open>2 ^ 64\<close> and the division is unsigned. The older version of the function
  does not clear the vectors first; its loop overwrites every entry all the same.
\<close>

definition workStep ::
  "64 word \<Rightarrow> int \<Rightarrow> int \<Rightarrow> 'w::len word list \<times> 'w word list \<Rightarrow> 'w word list \<times> 'w word list" where
  "workStep numTasks sz r ht =
     ((fst ht)[nat r := ucast ((numTasks * word_of_int r) div word_of_int sz)],
      (snd ht)[nat r := ucast ((numTasks * word_of_int (r + 1)) div word_of_int sz)])"

definition divideWork :: "64 word \<Rightarrow> 'w::len MPIcontroller \<Rightarrow> 'w MPIcontroller" where
  "divideWork numTasks this =
     (let heads0 = replicate (nat (sizeMPI this)) 0;
          tails0 = replicate (nat (sizeMPI this)) 0;
          ht = fold (workStep numTasks (sizeMPI this)) [0 .. sizeMPI this - 1] (heads0, tails0)
      in this \<lparr> workDivisionHeads := fst ht, workDivisionTails := snd ht \<rparr>)"

text \<open>The range of task indices that process \<open>r\<close> owns after \<open>divideWork\<close>.\<close>

definition workRange :: "'w::len MPIcontroller \<Rightarrow> nat \<Rightarrow> nat set" where
  "workRange this r =
     {unat (workDivisionHeads this ! r) ..< unat (workDivisionTails this ! r)}"

text \<open>
  The controller of the first of four processes, as the constructor leaves it, used to
  evaluate \<open>divideWork\<close> on concrete inputs.
\<close>

definition four_processes :: "'w::len MPIcontroller" where
  "four_processes = \<lparr> sizeMPI = 4, rank = 0, numBlasRows = 2, numBlasCols = 2,
                        workDivisionHeads = [], workDivisionTails = [] \<rparr>"

section \<open>The phonon transport application\<close>

text \<open>
  \<open>PhononTransportApp::run\<close> reads its settings from a \<open>Context\<close>. Only the getters
  that \<open>run\<close> calls after the relaxation-time stage are fields here.
\<close>

record Context =
  getSolverBTE :: "string list"
  getScatteringMatrixInMemory :: bool
  getMaxIterationsBTE :: int
  getConvergenceThresholdBTE :: real
  getUseSymmetries :: bool

text \<open>
  The classes \<open>PhScatteringMatrix\<close>, \<open>VectorBTE\<close>, \<open>StatisticsSweep\<close> and
  \<open>PhononThermalConductivity\<close> are not among the sources; \<open>run\<close> only calls them. Their
  operations are the fields of a record that \<open>run\<close> takes as a parameter: \<open>'v\<close> is the
  type of a \<open>VectorBTE\<close>, \<open>'m\<close> of the \<open>Eigen::MatrixXd\<close> that \<open>VectorBTE::dot\<close>
  returns, \<open>'k\<close> of the thermal conductivity. \<open>popRTA\<close> is \<open>drift * phononRelTimes\<close>,
  \<open>emptyVector\<close> a freshly constructed \<open>VectorBTE\<close>, \<open>vtimesM\<close> the product of a
  vector with the per-calculation coefficients \<open>alpha\<close> or \<open>beta\<close>, and
  \<open>normMaxCoeff a b\<close> is \<open>(a - b).getNorm().maxCoeff()\<close>.
\<close>

record ('v, 'm, 'k) Collaborators =
  getNumCalcs :: int
  popRTA :: 'v
  emptyVector :: 'v
  diagonal :: 'v
  dot :: "'v \<Rightarrow> 'v"
  offDiagonalDot :: "'v \<Rightarrow> 'v"
  population2Canonical :: "'v \<Rightarrow> 'v"
  vsqrt :: "'v \<Rightarrow> 'v"
  vuminus :: "'v \<Rightarrow> 'v"
  vplus :: "'v \<Rightarrow> 'v \<Rightarrow> 'v"
  vminus :: "'v \<Rightarrow> 'v \<Rightarrow> 'v"
  vtimes :: "'v \<Rightarrow> 'v \<Rightarrow> 'v"
  vdivide :: "'v \<Rightarrow> 'v \<Rightarrow> 'v"
  vtimesM :: "'v \<Rightarrow> 'm \<Rightarrow> 'v"
  vdot :: "'v \<Rightarrow> 'v \<Rightarrow> 'm"
  mdivide :: "'m \<Rightarrow> 'm \<Rightarrow> 'm"
  calcFromPopulation :: "'v \<Rightarrow> 'k"
  calcFromCanonicalPopulation :: "'v \<Rightarrow> 'k"
  calcVariational :: "'v \<Rightarrow> 'v \<Rightarrow> 'v \<Rightarrow> 'k"
  calcFromRelaxons :: 'k
  normMaxCoeff :: "'k \<Rightarrow> 'k \<Rightarrow> real"

text \<open>
  What a run does that is visible from outside, in order: the assembly of the
  scattering matrix (\<open>setup()\<close>), the files written, the barriers, the conductivity
  printed at each solver iteration, and the two steps of the relaxons solver.
\<close>

datatype Event =
  Setup
  | OutputToJSON string
  | Barrier
  | PrintIter int
  | A2Omega
  | Diagonalize

text \<open>
  The loop over \<open>solverBTE\<close> that sets \<open>doIterative\<close>, \<open>doVariational\<close> and
  \<open>doRelaxons\<close>.
\<close>

definition solverFlags :: "string list \<Rightarrow> bool \<times> bool \<times> bool" where
  "solverFlags solverBTE =
     fold (\<lambda>s (doIterative, doVariational, doRelaxons).
            (if s = ''iterative'' then True else doIterative,
             if s = ''variational'' then True else doVariational,
             if s = ''relaxons'' then True else doRelaxons))
       solverBTE (False, False, False)"

subsection \<open>The Omini-Sparavigna solver\<close>

text \<open>
  The \<open>for\<close> loop of the iterative solver, from iteration \<open>iter\<close> on. A \<open>break\<close>
  returns \<open>Inr\<close> with \<open>fNext\<close>, \<open>phTCond\<close> and the events so far; the \<open>Error\<close> of the
  last iteration returns \<open>Inl\<close>.
\<close>

function iterativeLoop ::
  "('v, 'm, 'k) Collaborators \<Rightarrow> 'v \<Rightarrow> 'v \<Rightarrow> real \<Rightarrow> int \<Rightarrow> int \<Rightarrow> 'v \<Rightarrow> 'v \<Rightarrow> 'k \<Rightarrow> 'k
     \<Rightarrow> Event list \<Rightarrow> (Error \<times> Event list) + ('v \<times> 'k \<times> Event list)" where
  "iterativeLoop c fRTA sMatrixDiagonal threshold maxIter iter fOld fNext phTCondOld phTCond tr =
     (if iter < maxIter then
        (let fNext1 = vdivide c (offDiagonalDot c fOld) sMatrixDiagonal;
             fNext2 = vminus c fRTA fNext1;
             phTCond' = calcFromCanonicalPopulation c fNext2;
             tr' = tr @ [PrintIter iter]
         in if normMaxCoeff c phTCond' phTCondOld < threshold then Inr (fNext2, phTCond', tr')
            else if iter = maxIter - 1
            then Inl (Error ''Reached max BTE iterations without convergence'', tr')
            else iterativeLoop c fRTA sMatrixDiagonal threshold maxIter (iter + 1)
                   fNext2 fNext2 phTCond' phTCond' tr')
      else Inr (fNext, phTCond, tr))"
  by pat_completeness auto
termination
  by (relation "measure (\<lambda>(c, fRTA, d, thr, maxIter, iter, rest). nat (maxIter - iter))") auto

declare iterativeLoop.simps [simp del]

text \<open>The block \<open>if (doIterative) { ... }\<close>.\<close>

definition iterativeSolver ::
  "('v, 'm, 'k) Collaborators \<Rightarrow> Context \<Rightarrow> 'k \<Rightarrow> Event list
     \<Rightarrow> (Error \<times> Event list) + ('k \<times> Event list)" where
  "iterativeSolver c context phTCond tr =
     (let phTCondOld = phTCond;
          fNext = emptyVector c;
          sMatrixDiagonal = diagonal c;
          fRTA = population2Canonical c (popRTA c);
          fOld = fRTA;
          threshold = getConvergenceThresholdBTE context
      in case iterativeLoop c fRTA sMatrixDiagonal threshold (getMaxIterationsBTE context) 0
                fOld fNext phTCondOld phTCond tr of
           Inl e \<Rightarrow> Inl e
         | Inr (fNext', phTCond', tr') \<Rightarrow>
             Inr (phTCond', tr' @ [OutputToJSON ''omini_phonon_thermal_cond.json'']))"

text \<open>
  The iteration in the words of the spec:
  \<open>next = canonical(RTA) - offDiagonalDot(current) / diagonal\<close>, started at the
  canonical RTA population, with the conductivity derived from each iterate and the
  change of the conductivity between consecutive iterations.
\<close>

fun OS_population :: "('v, 'm, 'k) Collaborators \<Rightarrow> nat \<Rightarrow> 'v" where
  "OS_population c 0 = population2Canonical c (popRTA c)"
| "OS_population c (Suc n) =
     vminus c (population2Canonical c (popRTA c))
       (vdivide c (offDiagonalDot c (OS_population c n)) (diagonal c))"

fun OS_conductivity :: "('v, 'm, 'k) Collaborators \<Rightarrow> 'k \<Rightarrow> nat \<Rightarrow> 'k" where
  "OS_conductivity c phTCond 0 = phTCond"
| "OS_conductivity c phTCond (Suc n) = calcFromCanonicalPopulation c (OS_population c (Suc n))"

definition OS_change :: "('v, 'm, 'k) Collaborators \<Rightarrow> 'k \<Rightarrow> nat \<Rightarrow> real" where
  "OS_change c phTCond n =
     normMaxCoeff c (OS_conductivity c phTCond (Suc n)) (OS_conductivity c phTCond n)"

subsection \<open>The variational solver\<close>

text \<open>
  One conjugate-gradient step, the body of the \<open>for\<close> loop up to \<open>calcVariational\<close>:
  from \<open>fOld\<close>, \<open>gOld\<close>, \<open>hOld\<close>, \<open>tOld\<close> to \<open>fNew\<close>, \<open>gNew\<close>, \<open>hNew\<close>, the new
  \<open>tOld\<close> and the new conductivity. Modelled from the spec: the batched
  \<open>scatteringMatrix.dot(inVectors)\<close> returns what \<open>dot\<close> returns for each vector.
\<close>

definition cgStep ::
  "('v, 'm, 'k) Collaborators \<Rightarrow> 'v \<Rightarrow> 'v \<Rightarrow> 'v \<times> 'v \<times> 'v \<times> 'v \<times> 'k \<Rightarrow> 'v \<times> 'v \<times> 'v \<times> 'v \<times> 'k" where
  "cgStep c sMatrixDiagonal sMatrixDiagonalSqrt s =
     (case s of (fOld, gOld, hOld, tOld, phTCondOld) \<Rightarrow>
        let alpha = mdivide c (vdot c gOld hOld) (vdot c hOld tOld);
            fNew1 = vtimesM c hOld alpha;
            fNew = vminus c fOld fNew1;
            gNew1 = vtimesM c tOld alpha;
            gNew = vminus c gOld gNew1;
            beta = mdivide c (vdot c gNew gNew) (vdot c gOld gOld);
            hNew1 = vtimesM c hOld beta;
            hNew = vplus c (vuminus c gNew) hNew1;
            inVectors = [fNew, hNew];
            outVectors = map (dot c) inVectors;
            tOld1 = outVectors ! 1;
            tOld' = vdivide c tOld1 sMatrixDiagonal;
            phTCond' = calcVariational c (outVectors ! 0) fNew sMatrixDiagonalSqrt
        in (fNew, gNew, hNew, tOld', phTCond'))"

text \<open>
  The \<open>for\<close> loop of the variational solver, from iteration \<open>iter\<close> on. The state
  \<open>s\<close> holds \<open>fOld\<close>, \<open>gOld\<close>, \<open>hOld\<close>, \<open>tOld\<close> and \<open>phTCondOld\<close>.
\<close>

function variationalLoop ::
  "('v, 'm, 'k) Collaborators \<Rightarrow> 'v \<Rightarrow> 'v \<Rightarrow> real \<Rightarrow> int \<Rightarrow> int \<Rightarrow> 'v \<times> 'v \<times> 'v \<times> 'v \<times> 'k \<Rightarrow> 'k
     \<Rightarrow> Event list \<Rightarrow> (Error \<times> Event list) + ('k \<times> Event list)" where
  "variationalLoop c sMatrixDiagonal sMatrixDiagonalSqrt threshold maxIter iter s phTCond tr =
     (if iter < maxIter then
        (let s' = cgStep c sMatrixDiagonal sMatrixDiagonalSqrt s;
             phTCond' = snd (snd (snd (snd s')));
             phTCondOld = snd (snd (snd (snd s)));
             tr' = tr @ [PrintIter iter]
         in if normMaxCoeff c phTCond' phTCondOld < threshold then Inr (phTCond', tr')
            else if iter = maxIter - 1
            then Inl (Error ''Reached max BTE iterations without convergence'', tr')
            else variationalLoop c sMatrixDiagonal sMatrixDiagonalSqrt threshold maxIter
                   (iter + 1) s' phTCond' tr')
      else Inr (phTCond, tr))"
  by pat_completeness auto
termination
  by (relation "measure (\<lambda>(c, d, ds, thr, maxIter, iter, rest). nat (maxIter - iter))") auto

declare variationalLoop.simps [simp del]

text \<open>
  The state with which the variational loop starts: the RTA population in canonical
  form, rescaled, and the first residual \<open>gOld\<close>, direction \<open>hOld\<close> and \<open>tOld\<close>.
\<close>

definition cgInit :: "('v, 'm, 'k) Collaborators \<Rightarrow> 'k \<Rightarrow> 'v \<times> 'v \<times> 'v \<times> 'v \<times> 'k" where
  "cgInit c phTCond =
     (let phTCondOld = phTCond;
          sMatrixDiagonalSqrt = vsqrt c (diagonal c);
          sMatrixDiagonal = diagonal c;
          fNew1 = popRTA c;
          fNew2 = population2Canonical c fNew1;
          fNew = vtimes c fNew2 sMatrixDiagonalSqrt;
          fOld = fNew;
          gOld1 = dot c fNew;
          gOld2 = vdivide c gOld1 sMatrixDiagonal;
          gOld = vminus c gOld2 fOld;
          hOld = vuminus c gOld;
          tOld1 = dot c hOld;
          tOld = vdivide c tOld1 sMatrixDiagonal
      in (fOld, gOld, hOld, tOld, phTCondOld))"

text \<open>The block \<open>if (doVariational) { ... }\<close>.\<close>

definition variationalSolver ::
  "('v, 'm, 'k) Collaborators \<Rightarrow> Context \<Rightarrow> 'k \<Rightarrow> Event list
     \<Rightarrow> (Error \<times> Event list) + ('k \<times> Event list)" where
  "variationalSolver c context phTCond tr =
     (let sMatrixDiagonalSqrt = vsqrt c (diagonal c);
          sMatrixDiagonal = diagonal c;
          threshold = getConvergenceThresholdBTE context
      in case variationalLoop c sMatrixDiagonal sMatrixDiagonalSqrt threshold
                (getMaxIterationsBTE context) 0 (cgInit c phTCond) phTCond tr of
           Inl e \<Rightarrow> Inl e
         | Inr (phTCond', tr') \<Rightarrow>
             Inr (phTCond', tr' @ [OutputToJSON ''variational_phonon_thermal_cond.json'']))"

text \<open>
  The states of the variational solver after \<open>n\<close> steps without convergence, and the
  change of the conductivity at step \<open>n\<close>.
\<close>

fun CG_state :: "('v, 'm, 'k) Collaborators \<Rightarrow> 'k \<Rightarrow> nat \<Rightarrow> 'v \<times> 'v \<times> 'v \<times> 'v \<times> 'k" where
  "CG_state c phTCond 0 = cgInit c phTCond"
| "CG_state c phTCond (Suc n) =
     cgStep c (diagonal c) (vsqrt c (diagonal c)) (CG_state c phTCond n)"

definition CG_change :: "('v, 'm, 'k) Collaborators \<Rightarrow> 'k \<Rightarrow> nat \<Rightarrow> real" where
  "CG_change c phTCond n =
     normMaxCoeff c (snd (snd (snd (snd (CG_state c phTCond (Suc n))))))
       (snd (snd (snd (snd (CG_state c phTCond n)))))"

subsection \<open>The relaxons solver and the whole run\<close>

text \<open>The block \<open>if (doRelaxons) { ... }\<close>.\<close>

definition relaxonsSolver ::
  "('v, 'm, 'k) Collaborators \<Rightarrow> Context \<Rightarrow> 'k \<Rightarrow> Event list
     \<Rightarrow> (Error \<times> Event list) + ('k \<times> Event list)" where
  "relaxonsSolver c context phTCond tr =
     Inr (calcFromRelaxons c,
          tr @ [A2Omega, Diagonalize,
                OutputToJSON ''relaxons_phonon_thermal_cond.json'',
                OutputToJSON ''relaxons_relaxation_times.json'']
             @ (if \<not> getUseSymmetries context
                then [OutputToJSON ''relaxons_phonon_viscosity.json''] else []))"

text \<open>
  The events of a run up to the validation of the input: the scattering matrix is set
  up, the relaxation-time stage writes its files.
\<close>

definition rtaStage :: "Event list" where
  "rtaStage =
     [Setup,
      OutputToJSON ''rta_ph_relaxation_times.json'',
      OutputToJSON ''rta_phonon_thermal_cond.json'',
      OutputToJSON ''wigner_phonon_thermal_cond.json'',
      OutputToJSON ''rta_phonon_viscosity.json'',
      OutputToJSON ''specific_heat.json'']"

text \<open>
  \<open>PhononTransportApp::run\<close>. The parsers, the band structure and the scattering
  matrix are collaborators that are not among the sources; they are taken to return.
  The result is the error with the events before it, or the last conductivity with all
  events.
\<close>

definition run ::
  "Context \<Rightarrow> ('v, 'm, 'k) Collaborators \<Rightarrow> (Error \<times> Event list) + ('k \<times> Event list)" where
  "run context c =
     (let tr = rtaStage;
          phTCond = calcFromPopulation c (popRTA c);
          solverBTE = getSolverBTE context;
          doIterative = fst (solverFlags solverBTE);
          doVariational = fst (snd (solverFlags solverBTE));
          doRelaxons = snd (snd (solverFlags solverBTE))
      in if doRelaxons \<and> \<not> getScatteringMatrixInMemory context
         then Inl (Error ''Relaxons require matrix kept in memory'', tr)
         else if getScatteringMatrixInMemory context \<and> getNumCalcs c \<noteq> 1
         then Inl (Error (''If scattering matrix is kept in memory, only one '' @
                          ''temperature/chemical potential is allowed in a run''), tr)
         else
           case (if doIterative then iterativeSolver c context phTCond (tr @ [Barrier])
                 else Inr (phTCond, tr @ [Barrier])) of
             Inl e \<Rightarrow> Inl e
           | Inr (phTCond1, tr1) \<Rightarrow>
           (case (if doVariational then variationalSolver c context phTCond1 tr1
                  else Inr (phTCond1, tr1)) of
             Inl e \<Rightarrow> Inl e
           | Inr (phTCond2, tr2) \<Rightarrow>
           (case (if doRelaxons then relaxonsSolver c context phTCond2 tr2
                  else Inr (phTCond2, tr2)) of
             Inl e \<Rightarrow> Inl e
           | Inr (phTCond3, tr3) \<Rightarrow> Inr (phTCond3, tr3 @ [Barrier]))))"

text \<open>
  A small instance of the collaborators, used to evaluate the solvers: a vector, a
  coefficient and a conductivity are each one real number. The diagonal is \<open>1\<close>,
  \<open>offDiagonalDot\<close> halves its argument and \<open>dot\<close> is the sum of both parts; the
  conductivity is the population itself, and the fixed point of the iteration is \<open>2/3\<close>.
  \<open>numCalcs\<close> is the number of calculations that the statistics sweep reports. With
  \<open>settings\<close> it makes the input of a run.
\<close>

definition scalarCollaborators :: "int \<Rightarrow> (real, real, real) Collaborators" where
  "scalarCollaborators numCalcs =
     \<lparr> getNumCalcs = numCalcs, popRTA = 1, emptyVector = 0, diagonal = 1,
       dot = (\<lambda>f. 3 / 2 * f), offDiagonalDot = (\<lambda>f. f / 2),
       population2Canonical = (\<lambda>f. f), vsqrt = sqrt, vuminus = uminus,
       vplus = (+), vminus = (-), vtimes = (*), vdivide = (/), vtimesM = (*),
       vdot = (*), mdivide = (/),
       calcFromPopulation = (\<lambda>f. f), calcFromCanonicalPopulation = (\<lambda>f. f),
       calcVariational = (\<lambda>out f d. f), calcFromRelaxons = 2 / 3,
       normMaxCoeff = (\<lambda>a b. \<bar>a - b\<bar>) \<rparr>"

definition settings :: "string list \<Rightarrow> bool \<Rightarrow> int \<Rightarrow> real \<Rightarrow> Context" where
  "settings solvers inMemory maxIter threshold =
     \<lparr> getSolverBTE = solvers, getScatteringMatrixInMemory = inMemory,
       getMaxIterationsBTE = maxIter, getConvergenceThresholdBTE = threshold,
       getUseSymmetries = False \<rparr>"

section \<open>The matrix wrapper\<close>

text \<open>
  \<open>Matrix<T>\<close> wraps a serial store \<open>mat\<close> and a distributed store \<open>pmat\<close>;
  \<open>isDistributed\<close> says which one is in use. The classes of the two stores are not
  among the sources, so their types are parameters.
\<close>

record ('s, 'p) Matrix =
  isDistributed :: bool
  mat :: 's
  pmat :: 'p


text \<open>
  Modelled from the spec: the \<open>prod\<close> of the serial and of the distributed store are
  not among the sources. The spec describes both as the dense matrix product with two
  transpose flags. A store is modelled by its global entries, a list of rows; the flag
  \<open>N\<close> leaves an operand as it is, \<open>T\<close> transposes it and \<open>C\<close> transposes and
  conjugates it. The call \<open>pmat.prod(that.pmat)\<close> leaves both flags to their default,
  modelled as \<open>transN\<close>.
\<close>

definition transN :: char where
  "transN = CHR ''N''"

definition transposeM :: "'a list list \<Rightarrow> 'a list list" where
  "transposeM A =
     (case A of [] \<Rightarrow> [] | r # rs \<Rightarrow> map (\<lambda>j. map (\<lambda>row. row ! j) A) [0 ..< length r])"

definition applyTrans :: "('a \<Rightarrow> 'a) \<Rightarrow> char \<Rightarrow> 'a list list \<Rightarrow> 'a list list" where
  "applyTrans conjugate flag A =
     (if flag = CHR ''T'' then transposeM A
      else if flag = CHR ''C'' then map (map conjugate) (transposeM A)
      else A)"

definition denseProd ::
  "('a::comm_ring_1 \<Rightarrow> 'a) \<Rightarrow> 'a list list \<Rightarrow> 'a list list \<Rightarrow> char \<Rightarrow> char \<Rightarrow> 'a list list" where
  "denseProd conjugate A B trans1 trans2 =
     map (\<lambda>row. map (\<lambda>col. sum_list (map2 (*) row col))
                  (transposeM (applyTrans conjugate trans2 B)))
       (applyTrans conjugate trans1 A)"

definition SerialMatrix_prod ::
  "('a::comm_ring_1 \<Rightarrow> 'a) \<Rightarrow> 'a list list \<Rightarrow> 'a list list \<Rightarrow> char \<Rightarrow> char \<Rightarrow> 'a list list" where
  "SerialMatrix_prod conjugate this that trans1 trans2 = denseProd conjugate this that trans1 trans2"

definition ParallelMatrix_prod ::
  "('a::comm_ring_1 \<Rightarrow> 'a) \<Rightarrow> 'a list list \<Rightarrow> 'a list list \<Rightarrow> char \<Rightarrow> char \<Rightarrow> 'a list list" where
  "ParallelMatrix_prod conjugate this that trans1 trans2 = denseProd conjugate this that trans1 trans2"

text \<open>\<open>Matrix<std::complex<double>>::prod\<close>: both stores get the two flags.\<close>

definition Matrix_complex_prod ::
  "(complex list list, complex list list) Matrix \<Rightarrow> (complex list list, complex list list) Matrix
     \<Rightarrow> char \<Rightarrow> char \<Rightarrow> (complex list list, complex list list) Matrix" where
  "Matrix_complex_prod this that trans1 trans2 =
     (let c = this
      in if isDistributed this
         then c \<lparr> pmat := ParallelMatrix_prod cnj (pmat this) (pmat that) trans1 trans2 \<rparr>
         else c \<lparr> mat := SerialMatrix_prod cnj (mat this) (mat that) trans1 trans2 \<rparr>)"

text \<open>
  \<open>Matrix<double>::prod\<close>: the serial store gets the two flags, the distributed store
  is called as \<open>pmat.prod(that.pmat)\<close>, without them.
\<close>

definition Matrix_double_prod ::
  "(real list list, real list list) Matrix \<Rightarrow> (real list list, real list list) Matrix
     \<Rightarrow> char \<Rightarrow> char \<Rightarrow> (real list list, real list list) Matrix" where
  "Matrix_double_prod this that trans1 trans2 =
     (let c = this
      in if isDistributed this
         then c \<lparr> pmat := ParallelMatrix_prod (\<lambda>x. x) (pmat this) (pmat that) transN transN \<rparr>
         else c \<lparr> mat := SerialMatrix_prod (\<lambda>x. x) (mat this) (mat that) trans1 trans2 \<rparr>)"

text \<open>A matrix with the given entries, held in the serial or in the distributed store.\<close>

definition serialMatrix :: "'a list list \<Rightarrow> ('a list list, 'a list list) Matrix" where
  "serialMatrix A = \<lparr> isDistributed = False, mat = A, pmat = [] \<rparr>"

definition distributedMatrix :: "'a list list \<Rightarrow> ('a list list, 'a list list) Matrix" where
  "distributedMatrix A = \<lparr> isDistributed = True, mat = [], pmat = A \<rparr>"

text \<open>The entries of a matrix, whichever store holds them.\<close>

definition entries :: "('a list list, 'a list list) Matrix \<Rightarrow> 'a list list" where
  "entries m = (if isDistributed m then pmat m else mat m)"



section \<open>State-pair vectors and the scattering matrix\<close>

text \<open>
  Modelled from the spec: the classes \<open>VectorBTE\<close> and \<open>ScatteringMatrix\<close> are not
  among the sources, which only call \<open>offDiagonalDot\<close>, \<open>dot\<close>, \<open>diagonal\<close> and
  \<open>population2Canonical\<close>. In the spec a state-pair vector is a mapping from
  (calculation index, Cartesian direction, state index) to a scalar, with elementwise
  arithmetic; the scattering matrix kept in memory is a square matrix over the states
  of the one calculation.
\<close>

type_synonym VectorBTE = "nat \<Rightarrow> nat \<Rightarrow> nat \<Rightarrow> real"

definition VectorBTE_minus :: "VectorBTE \<Rightarrow> VectorBTE \<Rightarrow> VectorBTE" where
  "VectorBTE_minus a b = (\<lambda>iCalc iDim i. a iCalc iDim i - b iCalc iDim i)"

definition VectorBTE_times :: "VectorBTE \<Rightarrow> VectorBTE \<Rightarrow> VectorBTE" where
  "VectorBTE_times a b = (\<lambda>iCalc iDim i. a iCalc iDim i * b iCalc iDim i)"

record ScatteringMatrix =
  numStates :: nat
  theMatrix :: "nat \<Rightarrow> nat \<Rightarrow> real"

text \<open>Modelled from the spec: \<open>dot(vector)\<close> is the full matrix-vector product.\<close>

definition ScatteringMatrix_dot :: "ScatteringMatrix \<Rightarrow> VectorBTE \<Rightarrow> VectorBTE" where
  "ScatteringMatrix_dot S v =
     (\<lambda>iCalc iDim i. \<Sum>j < numStates S. theMatrix S i j * v iCalc iDim j)"

text \<open>Modelled from the spec: \<open>diagonal()\<close> is the state-pair vector of the diagonal.\<close>

definition ScatteringMatrix_diagonal :: "ScatteringMatrix \<Rightarrow> VectorBTE" where
  "ScatteringMatrix_diagonal S = (\<lambda>iCalc iDim i. theMatrix S i i)"

text \<open>
  Modelled from the spec: \<open>offDiagonalDot(vector)\<close> computes \<open>A \<cdot> vector\<close> and then
  subtracts \<open>diag(A) * vector\<close> elementwise, without building \<open>A - diag(A)\<close>.
\<close>

definition ScatteringMatrix_offDiagonalDot :: "ScatteringMatrix \<Rightarrow> VectorBTE \<Rightarrow> VectorBTE" where
  "ScatteringMatrix_offDiagonalDot S v =
     VectorBTE_minus (ScatteringMatrix_dot S v) (VectorBTE_times (ScatteringMatrix_diagonal S) v)"

text \<open>The matrix \<open>A - diag(A)\<close>, built explicitly.\<close>

definition withoutDiagonal :: "ScatteringMatrix \<Rightarrow> ScatteringMatrix" where
  "withoutDiagonal S = S \<lparr> theMatrix := (\<lambda>i j. if i = j then 0 else theMatrix S i j) \<rparr>"



text \<open>
  The two-state system of the spec: couplings \<open>[[0, g], [g, 0]]\<close> off the diagonal and
  the diagonal \<open>[g, g]\<close>, here with \<open>g = 2\<close>; a vector and an occupation factor to go
  with it.
\<close>

definition twoStates :: ScatteringMatrix where
  "twoStates = \<lparr> numStates = 2, theMatrix = (\<lambda>i j. 2) \<rparr>"

definition sampleVector :: VectorBTE where
  "sampleVector = (\<lambda>iCalc iDim i. real (i + 3))"



section \<open>Properties of the MPI controller\<close>

subsection \<open>The integer square root\<close>

lemma sqrt_floor_bounds:
  "sqrt_floor n * sqrt_floor n \<le> n \<and> n < (sqrt_floor n + 1) * (sqrt_floor n + 1)"
proof (induction n)
  case 0
  show ?case by simp
next
  case (Suc n)
  then show ?case by (auto simp: Let_def)
qed

lemma sqrt_floor_unique:
  assumes "k * k \<le> n" "n < (k + 1) * (k + 1)"
  shows "sqrt_floor n = k"
proof -
  let ?r = "sqrt_floor n"
  have b: "?r * ?r \<le> n" "n < (?r + 1) * (?r + 1)" using sqrt_floor_bounds by auto
  have "\<not> ?r < k"
  proof
    assume "?r < k"
    then have h: "?r + 1 \<le> k" by arith
    have "(?r + 1) * (?r + 1) \<le> k * k" using mult_le_mono [OF h h] .
    with b assms show False by linarith
  qed
  moreover have "\<not> k < ?r"
  proof
    assume "k < ?r"
    then have h: "k + 1 \<le> ?r" by arith
    have "(k + 1) * (k + 1) \<le> ?r * ?r" using mult_le_mono [OF h h] .
    with b assms show False by linarith
  qed
  ultimately show ?thesis by simp
qed

lemma sqrt_floor_real: "int (sqrt_floor n) = \<lfloor>sqrt (real n)\<rfloor>"
proof -
  let ?r = "sqrt_floor n"
  have b: "?r * ?r \<le> n" "n < (?r + 1) * (?r + 1)" using sqrt_floor_bounds by auto
  have "real ?r * real ?r \<le> real n" using b(1) by (metis of_nat_mult of_nat_le_iff)
  then have 1: "real ?r \<le> sqrt (real n)"
    by (simp add: real_le_rsqrt power2_eq_square)
  have "real n < real (?r + 1) * real (?r + 1)" using b(2) by (metis of_nat_mult of_nat_less_iff)
  then have 2: "sqrt (real n) < real (?r + 1)"
    by (simp add: real_less_lsqrt power2_eq_square)
  have "\<lfloor>sqrt (real n)\<rfloor> = int ?r"
    by (rule floor_unique) (use 1 2 in simp_all)
  then show ?thesis by simp
qed

lemma sqrt_floor_square_iff: "sqrt_floor n * sqrt_floor n = n \<longleftrightarrow> (\<exists>k. n = k * k)"
proof
  assume "sqrt_floor n * sqrt_floor n = n"
  then show "\<exists>k. n = k * k" by metis
next
  assume "\<exists>k. n = k * k"
  then obtain k where k: "n = k * k" by blast
  have "sqrt_floor n = k" by (rule sqrt_floor_unique) (simp_all add: k)
  then show "sqrt_floor n * sqrt_floor n = n" using k by simp
qed

subsection \<open>The process grid\<close>

lemma int_square_iff_nat:
  assumes "0 \<le> n"
  shows "(\<exists>k::int. n = k * k) \<longleftrightarrow> (\<exists>j::nat. nat n = j * j)"
proof
  assume "\<exists>k::int. n = k * k"
  then obtain k :: int where "n = k * k" by blast
  then have "nat n = nat \<bar>k\<bar> * nat \<bar>k\<bar>"
    by (simp add: nat_mult_distrib [symmetric] abs_mult_self_eq)
  then show "\<exists>j::nat. nat n = j * j" by blast
next
  assume "\<exists>j::nat. nat n = j * j"
  then obtain j :: nat where "nat n = j * j" by blast
  then have "n = int j * int j" using assms by (metis int_nat_eq of_nat_mult)
  then show "\<exists>k::int. n = k * k" by blast
qed

text \<open>
  Claim C7. For a process count \<open>n \<ge> 1\<close>, the constructor fixes the grid to
  \<open>P \<times> P\<close> with \<open>P = \<lfloor>sqrt n\<rfloor>\<close>, and it succeeds exactly when \<open>n\<close> is a perfect
  square: every other count ends in the error
  \<open>Phoebe needs a square number of MPI processes\<close>, and on success \<open>P * P = n\<close>.
\<close>

theorem MPIcontroller_init_square_grid:
  assumes "1 \<le> n"
  shows "((\<nexists>k::int. n = k * k) \<longrightarrow>
            (MPIcontroller_init n rk :: Error + 'w::len MPIcontroller)
              = Inl (Error ''Phoebe needs a square number of MPI processes''))
       \<and> (\<forall>m :: 'w MPIcontroller. MPIcontroller_init n rk = Inr m \<longrightarrow>
            numBlasRows m = \<lfloor>sqrt (real_of_int n)\<rfloor> \<and> numBlasCols m = numBlasRows m
            \<and> numBlasRows m * numBlasCols m = n \<and> sizeMPI m = n \<and> rank m = rk)
       \<and> ((\<exists>k::int. n = k * k) \<longrightarrow>
            (\<exists>m :: 'w MPIcontroller. MPIcontroller_init n rk = Inr m))"
proof -
  let ?r = "sqrt_floor (nat n)"
  have n: "int (nat n) = n" using assms by simp
  have le: "int ?r * int ?r \<le> n"
    using sqrt_floor_bounds [of "nat n"] n by (metis of_nat_mult of_nat_le_iff)
  have fl: "int ?r = \<lfloor>sqrt (real_of_int n)\<rfloor>"
    using sqrt_floor_real [of "nat n"] assms by simp
  have sq: "int ?r * int ?r = n \<longleftrightarrow> (\<exists>k::int. n = k * k)"
  proof -
    have "int ?r * int ?r = n \<longleftrightarrow> ?r * ?r = nat n"
      using n by (metis of_nat_mult of_nat_eq_iff)
    then show ?thesis
      using sqrt_floor_square_iff [of "nat n"] int_square_iff_nat [of n] assms by simp
  qed
  show ?thesis
  proof (cases "\<exists>k::int. n = k * k")
    case True
    then have "int ?r * int ?r = n" using sq by simp
    then show ?thesis using True fl by (auto simp: MPIcontroller_init_def Let_def)
  next
    case False
    then have "int ?r * int ?r \<noteq> n" using sq by simp
    then have "int ?r * int ?r < n" using le by simp
    then show ?thesis using False by (simp add: MPIcontroller_init_def Let_def)
  qed
qed

text \<open>The theorem at nine processes (a \<open>3 \<times> 3\<close> grid) and at eight (refused).\<close>

theorem MPIcontroller_init_square_grid_witness:
  "(1::int) \<le> 9 \<and> (\<exists>k::int. 9 = k * k)
   \<and> (\<exists>m :: 32 MPIcontroller. MPIcontroller_init 9 0 = Inr m \<and> numBlasRows m = 3 \<and> numBlasCols m = 3)
   \<and> (1::int) \<le> 8 \<and> (\<nexists>k::int. 8 = k * k)
   \<and> (MPIcontroller_init 8 0 :: Error + 32 MPIcontroller)
        = Inl (Error ''Phoebe needs a square number of MPI processes'')"
proof -
  have nine: "\<exists>k::int. 9 = k * k" by (rule exI [of _ 3]) simp
  have eight: "\<nexists>k::int. 8 = k * k"
  proof
    assume "\<exists>k::int. 8 = k * k"
    then obtain k :: int where k: "8 = k * k" by blast
    then have "\<bar>k\<bar> * \<bar>k\<bar> = 8" by (simp add: abs_mult_self_eq)
    moreover have "\<bar>k\<bar> \<le> 2 \<or> 3 \<le> \<bar>k\<bar>" by arith
    moreover have "\<bar>k\<bar> * \<bar>k\<bar> \<le> 2 * 2" if "\<bar>k\<bar> \<le> 2"
      using that by (intro mult_mono) simp_all
    moreover have "3 * 3 \<le> \<bar>k\<bar> * \<bar>k\<bar>" if "3 \<le> \<bar>k\<bar>"
      using that by (intro mult_mono) simp_all
    ultimately show False by auto
  qed
  have r9: "sqrt_floor 9 = 3" by code_simp
  have v9: "MPIcontroller_init 9 0 = Inr (\<lparr> sizeMPI = 9, rank = 0, numBlasRows = 3, numBlasCols = 3,
      workDivisionHeads = [], workDivisionTails = [] \<rparr> :: 32 MPIcontroller)"
    by (simp add: MPIcontroller_init_def Let_def r9)
  have "(MPIcontroller_init 8 0 :: Error + 32 MPIcontroller)
        = Inl (Error ''Phoebe needs a square number of MPI processes'')"
    using MPIcontroller_init_square_grid [of 8 0, where 'w = 32] eight by simp
  then show ?thesis using nine eight v9 by simp
qed

subsection \<open>The division of work\<close>

lemma replicate_4: "replicate 4 x = [x, x, x, x]"
  by (simp add: numeral_eq_Suc)

lemma lessThan_4: "{..<(4::nat)} = {0, 1, 2, 3}"
  by auto

lemma upto_as_upt: "[0 .. int n - 1] = map int [0 ..< n]"
proof (induction n)
  case 0
  show ?case by simp
next
  case (Suc n)
  have "[0 .. int (Suc n) - 1] = [0 .. int n - 1] @ [int n]"
    using upto_rec2 [of 0 "int n"] by simp
  then show ?case using Suc by simp
qed

lemma fold_workStep:
  "k \<le> length hs \<Longrightarrow> length ts = length hs \<Longrightarrow>
   fold (workStep numTasks sz) (map int [0 ..< k]) (hs, ts) =
     (map (\<lambda>r. ucast ((numTasks * word_of_int (int r)) div word_of_int sz)) [0 ..< k] @ drop k hs,
      map (\<lambda>r. ucast ((numTasks * word_of_int (int r + 1)) div word_of_int sz)) [0 ..< k] @ drop k ts)"
proof (induction k)
  case 0
  show ?case by simp
next
  case (Suc k)
  then have k: "k < length hs" "k < length ts" by simp_all
  have upd: "\<And>xs ys v. k < length ys \<Longrightarrow> length xs = k \<Longrightarrow>
      (xs @ drop k ys)[k := v] = (xs @ [v]) @ drop (Suc k) (ys :: 'a word list)"
    by (simp add: list_update_append upd_conv_take_nth_drop)
  show ?case using Suc k by (simp add: workStep_def upd)
qed

lemma unat_word_of_int_small:
  assumes "0 \<le> k" "k \<le> 2147483648"
  shows "unat (word_of_int k :: 64 word) = nat k"
proof -
  have "word_of_int k = (word_of_nat (nat k) :: 64 word)" using assms by simp
  moreover have "nat k < 2 ^ 64" using assms by simp
  ultimately show ?thesis by (simp add: unat_of_nat)
qed

lemma unat_share:
  fixes numTasks :: "64 word"
  assumes "1 \<le> P" "P \<le> 2147483647" "unat numTasks * nat P < 2 ^ 64" "r \<le> nat P"
  shows "unat ((numTasks * word_of_int (int r)) div word_of_int P) = unat numTasks * r div nat P"
proof -
  have r: "unat (word_of_int (int r) :: 64 word) = r"
    using assms unat_word_of_int_small [of "int r"] by simp
  have P: "unat (word_of_int P :: 64 word) = nat P"
    using assms unat_word_of_int_small [of P] by simp
  have "unat numTasks * r \<le> unat numTasks * nat P" using assms by simp
  then have "unat numTasks * r < 2 ^ 64" using assms by linarith
  then have "unat (numTasks * word_of_int (int r)) = unat numTasks * r"
    using r unat_mult_lem [of numTasks "word_of_int (int r)"] by simp
  then show ?thesis using P by (simp add: unat_div)
qed

lemma unat_narrow:
  fixes x :: "64 word"
  assumes "unat x < 2 ^ LENGTH('w::len)"
  shows "unat (ucast x :: 'w word) = unat x"
  using assms by (simp add: unsigned_ucast_eq take_bit_nat_eq_self)

lemma tiling:
  fixes f :: "nat \<Rightarrow> nat"
  assumes "\<And>r. r < P \<Longrightarrow> f r \<le> f (Suc r)"
  shows "f 0 \<le> f P \<and> (\<Union>r<P. {f r ..< f (Suc r)}) = {f 0 ..< f P}"
  using assms
proof (induction P)
  case 0
  show ?case by simp
next
  case (Suc P)
  then have ih: "f 0 \<le> f P" "(\<Union>r<P. {f r ..< f (Suc r)}) = {f 0 ..< f P}" by simp_all
  have step: "f P \<le> f (Suc P)" using Suc.prems by simp
  have "(\<Union>r<Suc P. {f r ..< f (Suc r)}) = {f 0 ..< f P} \<union> {f P ..< f (Suc P)}"
    using ih(2) by (simp add: lessThan_Suc Un_commute)
  also have "\<dots> = {f 0 ..< f (Suc P)}"
    using ih(1) step by (rule ivl_disj_un_two)
  finally show ?case using ih(1) step by simp
qed

lemma share_mono: "(N::nat) * r div P \<le> N * Suc r div P"
  by (rule div_le_mono) simp

lemma share_mono_le: "r \<le> s \<Longrightarrow> (N::nat) * r div P \<le> N * s div P"
  by (rule div_le_mono) simp

lemma sint_small:
  fixes x :: "'w::len word"
  assumes "unat x < 2 ^ (LENGTH('w) - 1)"
  shows "sint x = int (unat x)"
proof -
  have "uint x < 2 ^ (LENGTH('w) - 1)"
    using assms by (metis of_nat_less_iff of_nat_numeral of_nat_power  uint_nat)
  then have "signed_take_bit (LENGTH('w) - Suc 0) (uint x) = uint x"
    by (simp add: signed_take_bit_int_eq_self_iff) (meson dual_order.trans neg_le_0_iff_le  uint_ge_0 zero_le_numeral zero_le_power)
  then show ?thesis by (simp add: sint_uint)
qed

lemma divideWork_vectors:
  fixes this :: "'w::len MPIcontroller"
  assumes "1 \<le> sizeMPI this"
  shows "workDivisionHeads (divideWork numTasks this) =
           map (\<lambda>r. ucast ((numTasks * word_of_int (int r)) div word_of_int (sizeMPI this)))
             [0 ..< nat (sizeMPI this)]"
    and "workDivisionTails (divideWork numTasks this) =
           map (\<lambda>r. ucast ((numTasks * word_of_int (int r + 1)) div word_of_int (sizeMPI this)))
             [0 ..< nat (sizeMPI this)]"
proof -
  have "[0 .. sizeMPI this - 1] = map int [0 ..< nat (sizeMPI this)]"
    using assms upto_as_upt [of "nat (sizeMPI this)"] by simp
  then show "workDivisionHeads (divideWork numTasks this) =
           map (\<lambda>r. ucast ((numTasks * word_of_int (int r)) div word_of_int (sizeMPI this)))
             [0 ..< nat (sizeMPI this)]"
    and "workDivisionTails (divideWork numTasks this) =
           map (\<lambda>r. ucast ((numTasks * word_of_int (int r + 1)) div word_of_int (sizeMPI this)))
             [0 ..< nat (sizeMPI this)]"
    by (simp_all add: divideWork_def Let_def fold_workStep)
qed

lemma divideWork_entries:
  fixes this :: "'w::len MPIcontroller" and numTasks :: "64 word"
  assumes "1 \<le> sizeMPI this" "sizeMPI this \<le> 2147483647"
    and "unat numTasks * nat (sizeMPI this) < 2 ^ 64"
    and "unat numTasks < 2 ^ (LENGTH('w) - 1)"
    and "r < nat (sizeMPI this)"
  shows "unat (workDivisionHeads (divideWork numTasks this) ! r)
           = unat numTasks * r div nat (sizeMPI this)"
    and "unat (workDivisionTails (divideWork numTasks this) ! r)
           = unat numTasks * Suc r div nat (sizeMPI this)"
proof -
  let ?P = "nat (sizeMPI this)"
  have bound: "unat numTasks * s div ?P < 2 ^ LENGTH('w)" if "s \<le> ?P" for s
  proof -
    have "unat numTasks * s div ?P \<le> unat numTasks * ?P div ?P"
      using that by (intro div_le_mono) simp
    also have "\<dots> = unat numTasks" using assms(1) by simp
    also have "\<dots> < 2 ^ (LENGTH('w) - 1)" by (rule assms(4))
    also have "\<dots> \<le> (2::nat) ^ LENGTH('w)" by (simp add: power_increasing)
    finally show ?thesis .
  qed
  have h: "unat ((numTasks * word_of_int (int r)) div word_of_int (sizeMPI this))
             = unat numTasks * r div ?P"
    using assms by (intro unat_share) simp_all
  have t: "unat ((numTasks * word_of_int (int (Suc r))) div word_of_int (sizeMPI this))
             = unat numTasks * Suc r div ?P"
    using assms by (intro unat_share) simp_all
  show "unat (workDivisionHeads (divideWork numTasks this) ! r) = unat numTasks * r div ?P"
    using assms(5) h bound [of r]
    by (simp add: divideWork_vectors [OF assms(1)] unat_narrow)
  show "unat (workDivisionTails (divideWork numTasks this) ! r) = unat numTasks * Suc r div ?P"
    using assms(5) t bound [of "Suc r"]
    by (simp add: divideWork_vectors [OF assms(1)] unat_narrow add.commute)
qed

text \<open>
  Claim C6, as amended. Let \<open>P = size\<close> with \<open>1 \<le> P\<close> (an \<open>int\<close>), and let the
  product \<open>numTasks * P\<close> fit in \<open>size_t\<close> and \<open>numTasks\<close> fit in the element type
  of the two vectors. Then \<open>divideWork\<close> gives process \<open>r\<close> the half-open range
  \<open>[numTasks * r / P, numTasks * (r + 1) / P)\<close>, with the same value under the signed
  and the unsigned reading of the stored elements; the ranges of the \<open>P\<close> processes
  are pairwise disjoint and their union is \<open>[0, numTasks)\<close>.
\<close>

theorem divideWork_partition:
  fixes this :: "'w::len MPIcontroller" and numTasks :: "64 word"
  assumes "1 \<le> sizeMPI this" "sizeMPI this \<le> 2147483647"
    and "unat numTasks * nat (sizeMPI this) < 2 ^ 64"
    and "unat numTasks < 2 ^ (LENGTH('w) - 1)"
  shows "length (workDivisionHeads (divideWork numTasks this)) = nat (sizeMPI this)
       \<and> length (workDivisionTails (divideWork numTasks this)) = nat (sizeMPI this)
       \<and> (\<forall>r < nat (sizeMPI this).
             workRange (divideWork numTasks this) r =
               {unat numTasks * r div nat (sizeMPI this) ..<
                unat numTasks * (r + 1) div nat (sizeMPI this)}
           \<and> sint (workDivisionHeads (divideWork numTasks this) ! r) =
               int (unat numTasks * r div nat (sizeMPI this))
           \<and> sint (workDivisionTails (divideWork numTasks this) ! r) =
               int (unat numTasks * (r + 1) div nat (sizeMPI this)))
       \<and> (\<Union>r < nat (sizeMPI this). workRange (divideWork numTasks this) r)
             = {0 ..< unat numTasks}
       \<and> (\<forall>r < nat (sizeMPI this). \<forall>s < nat (sizeMPI this).
             r \<noteq> s \<longrightarrow>
             workRange (divideWork numTasks this) r \<inter> workRange (divideWork numTasks this) s = {})"
proof -
  let ?P = "nat (sizeMPI this)"
  let ?that = "divideWork numTasks this"
  let ?f = "\<lambda>r. unat numTasks * r div ?P"
  have P: "0 < ?P" using assms(1) by simp
  have len: "length (workDivisionHeads ?that) = ?P" "length (workDivisionTails ?that) = ?P"
    by (simp_all add: divideWork_vectors [OF assms(1)])
  have range: "workRange ?that r = {?f r ..< ?f (Suc r)}" if "r < ?P" for r
    using divideWork_entries [OF assms that] by (simp add: workRange_def)
  have small: "?f s < 2 ^ (LENGTH('w) - 1)" if "s \<le> ?P" for s
  proof -
    have "?f s \<le> ?f ?P" using that by (rule share_mono_le)
    also have "\<dots> = unat numTasks" using P by simp
    finally show ?thesis using assms(4) by simp
  qed
  have signed: "sint (workDivisionHeads ?that ! r) = int (?f r)
              \<and> sint (workDivisionTails ?that ! r) = int (?f (Suc r))" if "r < ?P" for r
    using divideWork_entries [OF assms that] small [of r] small [of "Suc r"] that
    by (simp add: sint_small)
  have "(\<Union>r < ?P. workRange ?that r) = (\<Union>r < ?P. {?f r ..< ?f (Suc r)})"
    using range by simp
  also have "\<dots> = {?f 0 ..< ?f ?P}"
    using tiling [of ?P ?f] share_mono by simp
  also have "\<dots> = {0 ..< unat numTasks}" using P by simp
  finally have cover: "(\<Union>r < ?P. workRange ?that r) = {0 ..< unat numTasks}" .
  have disj: "workRange ?that r \<inter> workRange ?that s = {}"
    if "r < ?P" "s < ?P" "r \<noteq> s" for r s
  proof -
    have lt: "{?f a ..< ?f (Suc a)} \<inter> {?f b ..< ?f (Suc b)} = {}" if "a < b" for a b
    proof -
      have "?f (Suc a) \<le> ?f b" using that by (intro share_mono_le) simp
      then show ?thesis by auto
    qed
    show ?thesis
    proof (cases "r < s")
      case True
      then show ?thesis using lt [of r s] range that by simp
    next
      case False
      then have "s < r" using that by simp
      then show ?thesis using lt [of s r] range that by (simp add: Int_commute)
    qed
  qed
  show ?thesis using len range signed cover disj by simp
qed

text \<open>
  The theorem at ten tasks on four processes, with 32-bit elements: the ranges are
  \<open>[0,2)\<close>, \<open>[2,5)\<close>, \<open>[5,7)\<close> and \<open>[7,10)\<close>.
\<close>

theorem divideWork_partition_witness:
  "1 \<le> sizeMPI (four_processes :: 32 MPIcontroller)
   \<and> sizeMPI (four_processes :: 32 MPIcontroller) \<le> 2147483647
   \<and> unat (10 :: 64 word) * nat (sizeMPI (four_processes :: 32 MPIcontroller)) < 2 ^ 64
   \<and> unat (10 :: 64 word) < 2 ^ (LENGTH(32) - 1)
   \<and> workDivisionHeads (divideWork 10 (four_processes :: 32 MPIcontroller)) = [0, 2, 5, 7]
   \<and> workDivisionTails (divideWork 10 (four_processes :: 32 MPIcontroller)) = [2, 5, 7, 10]
   \<and> (\<Union>r < nat (sizeMPI (four_processes :: 32 MPIcontroller)).
         workRange (divideWork 10 (four_processes :: 32 MPIcontroller)) r)
        = {0 ..< unat (10 :: 64 word)}"
proof -
  let ?m = "four_processes :: 32 MPIcontroller"
  have h: "1 \<le> sizeMPI ?m" "sizeMPI ?m \<le> 2147483647"
    "unat (10 :: 64 word) * nat (sizeMPI ?m) < 2 ^ 64"
    "unat (10 :: 64 word) < 2 ^ (LENGTH(32) - 1)"
    by (simp_all add: four_processes_def)
  have v: "workDivisionHeads (divideWork 10 ?m) = [0, 2, 5, 7]"
    "workDivisionTails (divideWork 10 ?m) = [2, 5, 7, 10]"
    by (simp_all add: four_processes_def divideWork_def workStep_def Let_def upto.simps
        replicate_4)
  show ?thesis using h v divideWork_partition [OF h] by blast
qed

text \<open>
  Claim C6 as stated, for every \<open>numTasks\<close>, fails where the product wraps: with
  \<open>numTasks = 2 ^ 62\<close> and four processes, \<open>numTasks * 4\<close> is \<open>0\<close> in \<open>size_t\<close>, so
  the last process gets the empty range \<open>[3 * 2 ^ 60, 0)\<close> and no process owns the
  task \<open>3 * 2 ^ 60\<close>, which is below \<open>numTasks\<close>.
\<close>

theorem divideWork_wraps_counterexample:
  "workDivisionHeads (divideWork 4611686018427387904 (four_processes :: 64 MPIcontroller))
     = [0, 1152921504606846976, 2305843009213693952, 3458764513820540928]
   \<and> workDivisionTails (divideWork 4611686018427387904 (four_processes :: 64 MPIcontroller))
     = [1152921504606846976, 2305843009213693952, 3458764513820540928, 0]
   \<and> workRange (divideWork 4611686018427387904 (four_processes :: 64 MPIcontroller)) 3 = {}
   \<and> 3458764513820540928 < unat (4611686018427387904 :: 64 word)
   \<and> 3458764513820540928 \<notin>
       (\<Union>r < 4. workRange (divideWork 4611686018427387904 (four_processes :: 64 MPIcontroller)) r)"
proof -
  let ?that = "divideWork 4611686018427387904 (four_processes :: 64 MPIcontroller)"
  have v: "workDivisionHeads ?that
             = [0, 1152921504606846976, 2305843009213693952, 3458764513820540928]"
    "workDivisionTails ?that
             = [1152921504606846976, 2305843009213693952, 3458764513820540928, 0]"
    by (simp_all add: four_processes_def divideWork_def workStep_def Let_def upto.simps
        replicate_4)
  have r: "workRange ?that 0 = {0 ..< 1152921504606846976}"
    "workRange ?that 1 = {1152921504606846976 ..< 2305843009213693952}"
    "workRange ?that 2 = {2305843009213693952 ..< 3458764513820540928}"
    "workRange ?that 3 = {}"
    using v by (simp_all add: workRange_def)
  show ?thesis using v r by (simp add: lessThan_4)
qed

section \<open>Properties of the phonon transport application\<close>

subsection \<open>Validation of the input\<close>

lemma fold_flags:
  "fold (\<lambda>s (doIterative, doVariational, doRelaxons).
            (if s = ''iterative'' then True else doIterative,
             if s = ''variational'' then True else doVariational,
             if s = ''relaxons'' then True else doRelaxons)) xs (a, b, c)
   = (a \<or> ''iterative'' \<in> set xs, b \<or> ''variational'' \<in> set xs, c \<or> ''relaxons'' \<in> set xs)"
  by (induction xs arbitrary: a b c) auto

lemma solverFlags_set:
  "solverFlags xs = (''iterative'' \<in> set xs, ''variational'' \<in> set xs, ''relaxons'' \<in> set xs)"
  by (simp add: solverFlags_def fold_flags)

text \<open>
  Claim C1. If the relaxons solver is requested and the scattering matrix is not kept
  in memory, or if the matrix is kept in memory and the run has more than one
  calculation, \<open>run\<close> ends in an \<open>Error\<close>, which is fatal: the first case with the
  message \<open>Relaxons require matrix kept in memory\<close>, the second with the message on
  the single temperature/chemical potential.
\<close>

theorem run_precondition_errors:
  "(''relaxons'' \<in> set (getSolverBTE context) \<and> \<not> getScatteringMatrixInMemory context \<longrightarrow>
      (\<exists>tr. run context c = Inl (Error ''Relaxons require matrix kept in memory'', tr)))
   \<and> (getScatteringMatrixInMemory context \<and> 1 < getNumCalcs c \<longrightarrow>
      (\<exists>tr. run context c =
         Inl (Error (''If scattering matrix is kept in memory, only one '' @
                     ''temperature/chemical potential is allowed in a run''), tr)))"
proof (intro conjI impI)
  assume "''relaxons'' \<in> set (getSolverBTE context) \<and> \<not> getScatteringMatrixInMemory context"
  then have "snd (snd (solverFlags (getSolverBTE context)))"
    and "\<not> getScatteringMatrixInMemory context"
    by (simp_all add: solverFlags_set)
  then have "run context c = Inl (Error ''Relaxons require matrix kept in memory'', rtaStage)"
    by (simp add: run_def Let_def)
  then show "\<exists>tr. run context c = Inl (Error ''Relaxons require matrix kept in memory'', tr)"
    by blast
next
  assume "getScatteringMatrixInMemory context \<and> 1 < getNumCalcs c"
  then have "getScatteringMatrixInMemory context" and "getNumCalcs c \<noteq> 1"
    by simp_all
  then have "run context c =
         Inl (Error (''If scattering matrix is kept in memory, only one '' @
                     ''temperature/chemical potential is allowed in a run''), rtaStage)"
    by (simp add: run_def Let_def)
  then show "\<exists>tr. run context c =
         Inl (Error (''If scattering matrix is kept in memory, only one '' @
                     ''temperature/chemical potential is allowed in a run''), tr)"
    by blast
qed

text \<open>
  The theorem at a run that requests relaxons without the matrix in memory, and at a
  run with the matrix in memory and two calculations.
\<close>

theorem run_precondition_errors_witness:
  "''relaxons'' \<in> set (getSolverBTE (settings [''relaxons''] False 50 (1 / 10)))
   \<and> \<not> getScatteringMatrixInMemory (settings [''relaxons''] False 50 (1 / 10))
   \<and> (\<exists>tr. run (settings [''relaxons''] False 50 (1 / 10)) (scalarCollaborators 1)
          = Inl (Error ''Relaxons require matrix kept in memory'', tr))
   \<and> getScatteringMatrixInMemory (settings [''iterative''] True 50 (1 / 10))
   \<and> 1 < getNumCalcs (scalarCollaborators 2)
   \<and> (\<exists>tr. run (settings [''iterative''] True 50 (1 / 10)) (scalarCollaborators 2) =
         Inl (Error (''If scattering matrix is kept in memory, only one '' @
                     ''temperature/chemical potential is allowed in a run''), tr))"
proof -
  have a: "''relaxons'' \<in> set (getSolverBTE (settings [''relaxons''] False 50 (1 / 10)))
      \<and> \<not> getScatteringMatrixInMemory (settings [''relaxons''] False 50 (1 / 10))"
    by (simp add: settings_def)
  have b: "getScatteringMatrixInMemory (settings [''iterative''] True 50 (1 / 10))
      \<and> 1 < getNumCalcs (scalarCollaborators 2)"
    by (simp add: settings_def scalarCollaborators_def)
  show ?thesis
    using a b
      run_precondition_errors [of "settings [''relaxons''] False 50 (1 / 10)" "scalarCollaborators 1"]
      run_precondition_errors [of "settings [''iterative''] True 50 (1 / 10)" "scalarCollaborators 2"]
    by blast
qed

subsection \<open>The solver loops\<close>

lemma iterativeLoop_exhausted:
  assumes "i < n" and "\<forall>j. i \<le> j \<and> j < n \<longrightarrow> \<not> OS_change c k0 j < thr"
  shows "iterativeLoop c (population2Canonical c (popRTA c)) (diagonal c) thr (int n) (int i)
           (OS_population c i) fN (OS_conductivity c k0 i) kk tr
         = Inl (Error ''Reached max BTE iterations without convergence'',
                tr @ map (\<lambda>j. PrintIter (int j)) [i ..< n])"
  using assms
proof (induction "n - i" arbitrary: i fN kk tr)
  case 0
  then show ?case by simp
next
  case (Suc m)
  have nc: "\<not> OS_change c k0 i < thr" using Suc.prems by simp
  show ?case
  proof (cases "Suc i = n")
    case True
    then have last: "int i = int n - 1" by auto
    have "[i ..< n] = [i]" using True by auto
    then show ?thesis
      using nc Suc.prems(1) last
      by (subst iterativeLoop.simps) (simp add: Let_def OS_change_def)
  next
    case False
    then have lt: "Suc i < n" using Suc.prems(1) by simp
    have m: "m = n - Suc i" using Suc.hyps(2) by simp
    have rest: "\<forall>j. Suc i \<le> j \<and> j < n \<longrightarrow> \<not> OS_change c k0 j < thr"
      using Suc.prems(2) by simp
    have notlast: "int i \<noteq> int n - 1" using False by auto
    have ih: "iterativeLoop c (population2Canonical c (popRTA c)) (diagonal c) thr (int n)
           (int (Suc i)) (OS_population c (Suc i)) (OS_population c (Suc i))
           (OS_conductivity c k0 (Suc i)) (OS_conductivity c k0 (Suc i)) (tr @ [PrintIter (int i)])
         = Inl (Error ''Reached max BTE iterations without convergence'',
                (tr @ [PrintIter (int i)]) @ map (\<lambda>j. PrintIter (int j)) [Suc i ..< n])"
      by (rule Suc.hyps(1) [OF m lt rest])
    have upt: "[i ..< n] = i # [Suc i ..< n]" using Suc.prems(1) by (simp add: upt_conv_Cons)
    show ?thesis
      using nc Suc.prems(1) notlast ih
      by (subst iterativeLoop.simps) (simp add: Let_def OS_change_def upt add.commute)
  qed
qed

lemma iterativeLoop_converges:
  assumes "i \<le> n" "int n < maxIter" "OS_change c k0 n < thr"
    and "\<forall>j. i \<le> j \<and> j < n \<longrightarrow> \<not> OS_change c k0 j < thr"
  shows "iterativeLoop c (population2Canonical c (popRTA c)) (diagonal c) thr maxIter (int i)
           (OS_population c i) fN (OS_conductivity c k0 i) kk tr
         = Inr (OS_population c (Suc n), OS_conductivity c k0 (Suc n),
                tr @ map (\<lambda>j. PrintIter (int j)) [i ..< Suc n])"
  using assms
proof (induction "n - i" arbitrary: i fN kk tr)
  case 0
  then have "i = n" by simp
  then show ?case
    using "0.prems"
    by (subst iterativeLoop.simps) (simp add: Let_def OS_change_def)
next
  case (Suc m)
  then have lt: "i < n" by simp
  have nc: "\<not> OS_change c k0 i < thr" using Suc.prems lt by simp
  have m: "m = n - Suc i" using Suc.hyps(2) by simp
  have le: "Suc i \<le> n" using lt by simp
  have rest: "\<forall>j. Suc i \<le> j \<and> j < n \<longrightarrow> \<not> OS_change c k0 j < thr"
    using Suc.prems(4) by simp
  have notlast: "int i \<noteq> maxIter - 1" "int i < maxIter" using lt Suc.prems(2) by auto
  have ih: "iterativeLoop c (population2Canonical c (popRTA c)) (diagonal c) thr maxIter
           (int (Suc i)) (OS_population c (Suc i)) (OS_population c (Suc i))
           (OS_conductivity c k0 (Suc i)) (OS_conductivity c k0 (Suc i)) (tr @ [PrintIter (int i)])
         = Inr (OS_population c (Suc n), OS_conductivity c k0 (Suc n),
                (tr @ [PrintIter (int i)]) @ map (\<lambda>j. PrintIter (int j)) [Suc i ..< Suc n])"
    by (rule Suc.hyps(1) [OF m le Suc.prems(2) Suc.prems(3) rest])
  have upt: "[i ..< Suc n] = i # [Suc i ..< Suc n]" using lt by (simp add: upt_conv_Cons)
  show ?case
    using nc notlast ih
    by (subst iterativeLoop.simps) (simp add: Let_def OS_change_def upt add.commute del: upt_Suc)
qed

lemma variationalLoop_exhausted:
  assumes "i < n" and "\<forall>j. i \<le> j \<and> j < n \<longrightarrow> \<not> CG_change c k0 j < thr"
  shows "variationalLoop c (diagonal c) (vsqrt c (diagonal c)) thr (int n) (int i)
           (CG_state c k0 i) kk tr
         = Inl (Error ''Reached max BTE iterations without convergence'',
                tr @ map (\<lambda>j. PrintIter (int j)) [i ..< n])"
  using assms
proof (induction "n - i" arbitrary: i kk tr)
  case 0
  then show ?case by simp
next
  case (Suc m)
  have nc: "\<not> CG_change c k0 i < thr" using Suc.prems by simp
  show ?case
  proof (cases "Suc i = n")
    case True
    then have last: "int i = int n - 1" by auto
    have "[i ..< n] = [i]" using True by auto
    then show ?thesis
      using nc Suc.prems(1) last
      by (subst variationalLoop.simps) (simp add: Let_def CG_change_def)
  next
    case False
    then have lt: "Suc i < n" using Suc.prems(1) by simp
    have m: "m = n - Suc i" using Suc.hyps(2) by simp
    have rest: "\<forall>j. Suc i \<le> j \<and> j < n \<longrightarrow> \<not> CG_change c k0 j < thr"
      using Suc.prems(2) by simp
    have notlast: "int i \<noteq> int n - 1" using False by auto
    have ih: "variationalLoop c (diagonal c) (vsqrt c (diagonal c)) thr (int n)
           (int (Suc i)) (CG_state c k0 (Suc i))
           (snd (snd (snd (snd (CG_state c k0 (Suc i)))))) (tr @ [PrintIter (int i)])
         = Inl (Error ''Reached max BTE iterations without convergence'',
                (tr @ [PrintIter (int i)]) @ map (\<lambda>j. PrintIter (int j)) [Suc i ..< n])"
      by (rule Suc.hyps(1) [OF m lt rest])
    have upt: "[i ..< n] = i # [Suc i ..< n]" using Suc.prems(1) by (simp add: upt_conv_Cons)
    show ?thesis
      using nc Suc.prems(1) notlast ih
      by (subst variationalLoop.simps) (simp add: Let_def CG_change_def upt add.commute)
  qed
qed

text \<open>
  Claim C4, as amended. When the maximum number of iterations is at least one and the
  change of the conductivity stays at or above the threshold at every iteration of the
  budget, the iterative solver ends in the error
  \<open>Reached max BTE iterations without convergence\<close>, and so does the variational
  solver: neither returns a conductivity nor writes its file.
\<close>

theorem solvers_fail_without_convergence:
  assumes "1 \<le> getMaxIterationsBTE context"
  shows "((\<forall>j < nat (getMaxIterationsBTE context).
             \<not> OS_change c phTCond j < getConvergenceThresholdBTE context) \<longrightarrow>
          iterativeSolver c context phTCond tr =
            Inl (Error ''Reached max BTE iterations without convergence'',
                 tr @ map (\<lambda>j. PrintIter (int j)) [0 ..< nat (getMaxIterationsBTE context)]))
       \<and> ((\<forall>j < nat (getMaxIterationsBTE context).
             \<not> CG_change c phTCond j < getConvergenceThresholdBTE context) \<longrightarrow>
          variationalSolver c context phTCond tr =
            Inl (Error ''Reached max BTE iterations without convergence'',
                 tr @ map (\<lambda>j. PrintIter (int j)) [0 ..< nat (getMaxIterationsBTE context)]))"
proof -
  let ?n = "nat (getMaxIterationsBTE context)"
  have n: "0 < ?n" "int ?n = getMaxIterationsBTE context" using assms by simp_all
  have it: "iterativeSolver c context phTCond tr =
            Inl (Error ''Reached max BTE iterations without convergence'',
                 tr @ map (\<lambda>j. PrintIter (int j)) [0 ..< ?n])"
    if "\<forall>j < ?n. \<not> OS_change c phTCond j < getConvergenceThresholdBTE context"
  proof -
    have "iterativeLoop c (population2Canonical c (popRTA c)) (diagonal c)
            (getConvergenceThresholdBTE context) (int ?n) (int 0)
            (OS_population c 0) (emptyVector c) (OS_conductivity c phTCond 0) phTCond tr
          = Inl (Error ''Reached max BTE iterations without convergence'',
                 tr @ map (\<lambda>j. PrintIter (int j)) [0 ..< ?n])"
      using n(1) that by (intro iterativeLoop_exhausted) simp_all
    then show ?thesis using n(2) by (simp add: iterativeSolver_def Let_def)
  qed
  have var: "variationalSolver c context phTCond tr =
            Inl (Error ''Reached max BTE iterations without convergence'',
                 tr @ map (\<lambda>j. PrintIter (int j)) [0 ..< ?n])"
    if "\<forall>j < ?n. \<not> CG_change c phTCond j < getConvergenceThresholdBTE context"
  proof -
    have "variationalLoop c (diagonal c) (vsqrt c (diagonal c))
            (getConvergenceThresholdBTE context) (int ?n) (int 0)
            (CG_state c phTCond 0) phTCond tr
          = Inl (Error ''Reached max BTE iterations without convergence'',
                 tr @ map (\<lambda>j. PrintIter (int j)) [0 ..< ?n])"
      using n(1) that by (intro variationalLoop_exhausted) simp_all
    then show ?thesis using n(2) by (simp add: variationalSolver_def Let_def)
  qed
  show ?thesis using it var by blast
qed

lemma scalar_OS_change_0: "OS_change (scalarCollaborators 1) 1 0 = 1 / 2"
  by (simp add: OS_change_def scalarCollaborators_def)

lemma scalar_OS_change_1: "OS_change (scalarCollaborators 1) 1 (Suc 0) = 1 / 4"
  by (simp add: OS_change_def scalarCollaborators_def)

lemma scalar_CG_change_0: "CG_change (scalarCollaborators 1) 1 0 = 1 / 3"
  by (simp add: CG_change_def scalarCollaborators_def cgInit_def cgStep_def Let_def)

text \<open>
  The theorem at a budget of one iteration and the threshold \<open>1/10\<close>, on the scalar
  collaborators, where the first change is \<open>1/2\<close> for the iterative and \<open>1/3\<close> for
  the variational solver.
\<close>

theorem solvers_fail_without_convergence_witness:
  "1 \<le> getMaxIterationsBTE (settings [''iterative'', ''variational''] False 1 (1 / 10))
   \<and> \<not> OS_change (scalarCollaborators 1) 1 0 < 1 / 10
   \<and> \<not> CG_change (scalarCollaborators 1) 1 0 < 1 / 10
   \<and> iterativeSolver (scalarCollaborators 1)
        (settings [''iterative'', ''variational''] False 1 (1 / 10)) 1 []
      = Inl (Error ''Reached max BTE iterations without convergence'', [PrintIter 0])
   \<and> variationalSolver (scalarCollaborators 1)
        (settings [''iterative'', ''variational''] False 1 (1 / 10)) 1 []
      = Inl (Error ''Reached max BTE iterations without convergence'', [PrintIter 0])"
proof -
  let ?ctx = "settings [''iterative'', ''variational''] False 1 (1 / 10)"
  have g: "getMaxIterationsBTE ?ctx = 1" "getConvergenceThresholdBTE ?ctx = 1 / 10"
    by (simp_all add: settings_def)
  have h: "1 \<le> getMaxIterationsBTE ?ctx" using g by simp
  have a: "\<forall>j < nat (getMaxIterationsBTE ?ctx).
             \<not> OS_change (scalarCollaborators 1) 1 j < getConvergenceThresholdBTE ?ctx"
    using g scalar_OS_change_0 by simp
  have b: "\<forall>j < nat (getMaxIterationsBTE ?ctx).
             \<not> CG_change (scalarCollaborators 1) 1 j < getConvergenceThresholdBTE ?ctx"
    using g scalar_CG_change_0 by simp
  show ?thesis
    using solvers_fail_without_convergence [OF h, of "scalarCollaborators 1" 1 "[]"] a b g
      scalar_OS_change_0 scalar_CG_change_0
    by simp
qed

text \<open>
  Claim C4 as stated, for every maximum number of iterations, fails at zero: no
  iteration runs, so no change is ever below the threshold and no error is raised. The
  run returns the relaxation-time conductivity \<open>1\<close> and writes it as the result of both
  solvers, where the solution of the scalar system is \<open>2/3\<close>.
\<close>

theorem zero_iterations_counterexample:
  "getMaxIterationsBTE (settings [''iterative'', ''variational''] False 0 (1 / 10)) = 0
   \<and> \<not> OS_change (scalarCollaborators 1) 1 0 < 1 / 10
   \<and> \<not> CG_change (scalarCollaborators 1) 1 0 < 1 / 10
   \<and> run (settings [''iterative'', ''variational''] False 0 (1 / 10)) (scalarCollaborators 1)
      = Inr (1,
          [Setup,
           OutputToJSON ''rta_ph_relaxation_times.json'',
           OutputToJSON ''rta_phonon_thermal_cond.json'',
           OutputToJSON ''wigner_phonon_thermal_cond.json'',
           OutputToJSON ''rta_phonon_viscosity.json'',
           OutputToJSON ''specific_heat.json'',
           Barrier,
           OutputToJSON ''omini_phonon_thermal_cond.json'',
           OutputToJSON ''variational_phonon_thermal_cond.json'',
           Barrier])"
proof -
  have "run (settings [''iterative'', ''variational''] False 0 (1 / 10)) (scalarCollaborators 1)
      = Inr (1,
          [Setup,
           OutputToJSON ''rta_ph_relaxation_times.json'',
           OutputToJSON ''rta_phonon_thermal_cond.json'',
           OutputToJSON ''wigner_phonon_thermal_cond.json'',
           OutputToJSON ''rta_phonon_viscosity.json'',
           OutputToJSON ''specific_heat.json'',
           Barrier,
           OutputToJSON ''omini_phonon_thermal_cond.json'',
           OutputToJSON ''variational_phonon_thermal_cond.json'',
           Barrier])"
    by (simp add: run_def settings_def scalarCollaborators_def solverFlags_def rtaStage_def
        iterativeSolver_def variationalSolver_def cgInit_def Let_def
        iterativeLoop.simps variationalLoop.simps)
  then show ?thesis
    using scalar_OS_change_0 scalar_CG_change_0 by (simp add: settings_def)
qed

text \<open>
  Claim C5. Let \<open>n\<close> be the first iteration, within the budget, at which the change of
  the conductivity between consecutive iterations is below the threshold. Then the loop
  of the iterative solver ends there without error: it has computed the iterates of
  \<open>next = canonical(RTA) - offDiagonalDot(current) / diagonal\<close> up to number \<open>n + 1\<close>,
  printed \<open>n + 1\<close> conductivities, and the solver returns the conductivity of the last
  iterate and writes its file.
\<close>

theorem iterative_stops_at_first_small_change:
  assumes "int n < getMaxIterationsBTE context"
    and "OS_change c phTCond n < getConvergenceThresholdBTE context"
    and "\<forall>j < n. \<not> OS_change c phTCond j < getConvergenceThresholdBTE context"
  shows "iterativeLoop c (population2Canonical c (popRTA c)) (diagonal c)
           (getConvergenceThresholdBTE context) (getMaxIterationsBTE context) 0
           (population2Canonical c (popRTA c)) (emptyVector c) phTCond phTCond tr
         = Inr (OS_population c (Suc n), OS_conductivity c phTCond (Suc n),
                tr @ map (\<lambda>j. PrintIter (int j)) [0 ..< Suc n])
       \<and> iterativeSolver c context phTCond tr
         = Inr (OS_conductivity c phTCond (Suc n),
                tr @ map (\<lambda>j. PrintIter (int j)) [0 ..< Suc n]
                   @ [OutputToJSON ''omini_phonon_thermal_cond.json''])
       \<and> OS_population c (Suc n)
         = vminus c (population2Canonical c (popRTA c))
             (vdivide c (offDiagonalDot c (OS_population c n)) (diagonal c))"
proof -
  have "iterativeLoop c (population2Canonical c (popRTA c)) (diagonal c)
           (getConvergenceThresholdBTE context) (getMaxIterationsBTE context) (int 0)
           (OS_population c 0) (emptyVector c) (OS_conductivity c phTCond 0) phTCond tr
         = Inr (OS_population c (Suc n), OS_conductivity c phTCond (Suc n),
                tr @ map (\<lambda>j. PrintIter (int j)) [0 ..< Suc n])"
    using assms by (intro iterativeLoop_converges) simp_all
  then have loop: "iterativeLoop c (population2Canonical c (popRTA c)) (diagonal c)
           (getConvergenceThresholdBTE context) (getMaxIterationsBTE context) 0
           (population2Canonical c (popRTA c)) (emptyVector c) phTCond phTCond tr
         = Inr (OS_population c (Suc n), OS_conductivity c phTCond (Suc n),
                tr @ map (\<lambda>j. PrintIter (int j)) [0 ..< Suc n])"
    by simp
  then show ?thesis by (simp add: iterativeSolver_def Let_def)
qed

text \<open>
  The theorem on the scalar collaborators with the threshold \<open>3/10\<close>: the changes are
  \<open>1/2\<close> and \<open>1/4\<close>, so the solver stops after the second iteration with \<open>3/4\<close>.
\<close>

theorem iterative_stops_at_first_small_change_witness:
  "int 1 < getMaxIterationsBTE (settings [''iterative''] False 5 (3 / 10))
   \<and> OS_change (scalarCollaborators 1) 1 1 < 3 / 10
   \<and> \<not> OS_change (scalarCollaborators 1) 1 0 < 3 / 10
   \<and> iterativeSolver (scalarCollaborators 1) (settings [''iterative''] False 5 (3 / 10)) 1 []
       = Inr (3 / 4, [PrintIter 0, PrintIter 1, OutputToJSON ''omini_phonon_thermal_cond.json''])"
proof -
  let ?ctx = "settings [''iterative''] False 5 (3 / 10)"
  have g: "getMaxIterationsBTE ?ctx = 5" "getConvergenceThresholdBTE ?ctx = 3 / 10"
    by (simp_all add: settings_def)
  have h1: "int 1 < getMaxIterationsBTE ?ctx" using g by simp
  have h2: "OS_change (scalarCollaborators 1) 1 1 < getConvergenceThresholdBTE ?ctx"
    using g scalar_OS_change_1 by simp
  have h3: "\<forall>j < 1. \<not> OS_change (scalarCollaborators 1) 1 j < getConvergenceThresholdBTE ?ctx"
    using g scalar_OS_change_0 by simp
  have v: "OS_conductivity (scalarCollaborators 1) 1 (Suc 1) = 3 / 4"
    by (simp add: scalarCollaborators_def)
  have u: "[0 ..< Suc 1] = [0, 1]" by (simp add: upt_rec)
  show ?thesis
    using iterative_stops_at_first_small_change [OF h1 h2 h3, of "[]"] g h2 scalar_OS_change_0 v u
    by simp
qed

section \<open>Properties of the matrix wrapper, the vectors and the scattering matrix\<close>

text \<open>
  Claim C3 fails on \<open>Matrix<double>::prod\<close>. For \<open>A = [[1, 2], [3, 4]]\<close>, the unit
  matrix \<open>B\<close> and the flags \<open>T\<close>, \<open>N\<close>, the distributed mode returns \<open>A B\<close>, since
  the call of the distributed store leaves the flags out, while the serial mode
  returns \<open>A\<^sup>T B\<close>, as the complex specialisation does in distributed mode.
\<close>

theorem Matrix_double_prod_drops_flags:
  "entries (Matrix_double_prod (distributedMatrix [[1, 2], [3, 4]])
              (distributedMatrix [[1, 0], [0, 1]]) (CHR ''T'') (CHR ''N''))
     = [[1, 2], [3, 4]]
   \<and> entries (Matrix_double_prod (serialMatrix [[1, 2], [3, 4]])
              (serialMatrix [[1, 0], [0, 1]]) (CHR ''T'') (CHR ''N''))
     = [[1, 3], [2, 4]]
   \<and> entries (Matrix_complex_prod (distributedMatrix [[1, 2], [3, 4]])
              (distributedMatrix [[1, 0], [0, 1]]) (CHR ''T'') (CHR ''N''))
     = [[1, 3], [2, 4]]"
  by (simp add: entries_def Matrix_double_prod_def Matrix_complex_prod_def distributedMatrix_def
      serialMatrix_def ParallelMatrix_prod_def SerialMatrix_prod_def denseProd_def applyTrans_def
      transposeM_def transN_def Let_def upt_rec)




lemma sum_without_diagonal:
  fixes a x :: "nat \<Rightarrow> real"
  assumes "i < n"
  shows "(\<Sum>j < n. (if i = j then 0 else a j) * x j) = (\<Sum>j < n. a j * x j) - a i * x i"
proof -
  have "(\<Sum>j < n. a j * x j) = a i * x i + (\<Sum>j \<in> {..<n} - {i}. a j * x j)"
    using assms by (simp add: sum.remove)
  moreover have "(\<Sum>j < n. (if i = j then 0 else a j) * x j)
      = (if i = i then 0 else a i) * x i + (\<Sum>j \<in> {..<n} - {i}. (if i = j then 0 else a j) * x j)"
    using assms by (subst sum.remove [of _ i]) simp_all
  moreover have "(\<Sum>j \<in> {..<n} - {i}. (if i = j then 0 else a j) * x j)
      = (\<Sum>j \<in> {..<n} - {i}. a j * x j)"
    by (rule sum.cong) auto
  ultimately show ?thesis by simp
qed

text \<open>
  Claim C8. \<open>offDiagonalDot(v)\<close> is \<open>dot(v)\<close> minus the elementwise product
  \<open>diagonal() * v\<close>, and at every calculation, direction and state of the matrix it
  equals the product of \<open>v\<close> with the matrix whose diagonal is set to zero. The scalars
  are real numbers, so the identity is exact.
\<close>

theorem offDiagonalDot_is_zero_diagonal_product:
  "ScatteringMatrix_offDiagonalDot S v =
     VectorBTE_minus (ScatteringMatrix_dot S v) (VectorBTE_times (ScatteringMatrix_diagonal S) v)
   \<and> (\<forall>iCalc iDim i. i < numStates S \<longrightarrow>
        ScatteringMatrix_offDiagonalDot S v iCalc iDim i
          = ScatteringMatrix_dot (withoutDiagonal S) v iCalc iDim i)"
  by (simp add: ScatteringMatrix_offDiagonalDot_def ScatteringMatrix_dot_def
      ScatteringMatrix_diagonal_def VectorBTE_minus_def VectorBTE_times_def withoutDiagonal_def
      sum_without_diagonal)

text \<open>
  The theorem on the two-state system, at the first state: \<open>14 - 2 * 3 = 8\<close>.
\<close>

theorem offDiagonalDot_is_zero_diagonal_product_witness:
  "(0::nat) < numStates twoStates
   \<and> ScatteringMatrix_offDiagonalDot twoStates sampleVector 0 0 0 = 8
   \<and> ScatteringMatrix_dot (withoutDiagonal twoStates) sampleVector 0 0 0 = 8
   \<and> ScatteringMatrix_dot twoStates sampleVector 0 0 0 = 14"
proof -
  have h: "(0::nat) < numStates twoStates" by (simp add: twoStates_def)
  have d: "ScatteringMatrix_dot (withoutDiagonal twoStates) sampleVector 0 0 0 = 8"
    "ScatteringMatrix_dot twoStates sampleVector 0 0 0 = 14"
    by (simp_all add: ScatteringMatrix_dot_def withoutDiagonal_def twoStates_def sampleVector_def
        lessThan_Suc numeral_2_eq_2)
  have e: "ScatteringMatrix_offDiagonalDot twoStates sampleVector 0 0 0
      = ScatteringMatrix_dot (withoutDiagonal twoStates) sampleVector 0 0 0"
    using offDiagonalDot_is_zero_diagonal_product [of twoStates sampleVector] h by blast
  show ?thesis using h d e by simp
qed




end
